theory Spec2Isabelle
  imports Main
begin

section \<open>Python strings and the character tables they are read with\<close>

text \<open>
  A Python \<open>str\<close> is a sequence of Unicode code points.  A code point is a natural
  number here, a string a list of them; \<open>ustr\<close> reads an ASCII literal.
\<close>

type_synonym ustring = "nat list"

definition ustr :: "string \<Rightarrow> ustring" where
  "ustr s = map of_char s"

text \<open>
  The tables of the Unicode character database that \<open>re\<close> and \<open>str.lower\<close> consult
  are not part of the repository.  What they say about ASCII is written out below; what
  they say beyond ASCII is a parameter: alphanumeric code points (\<open>str.isalnum\<close>), the
  full lower-case mapping, and the two properties that decide the form of a lower-cased
  capital sigma.
\<close>

record ucd =
  uc_alnum :: "nat \<Rightarrow> bool"
  uc_lower :: "nat \<Rightarrow> nat list"
  uc_cased :: "nat \<Rightarrow> bool"
  uc_case_ignorable :: "nat \<Rightarrow> bool"

text \<open>
  \<open>str.isspace\<close>, which is also \<open>\s\<close> of a \<open>str\<close> pattern and what \<open>str.strip()\<close>
  removes: the ASCII controls 9-13 and 28-31, the space, and the Unicode separators.
\<close>

definition py_isspace :: "nat \<Rightarrow> bool" where
  "py_isspace c \<longleftrightarrow>
     (9 \<le> c \<and> c \<le> 13) \<or> (28 \<le> c \<and> c \<le> 32) \<or> c = 133 \<or> c = 160 \<or> c = 5760 \<or>
     (8192 \<le> c \<and> c \<le> 8202) \<or> c = 8232 \<or> c = 8233 \<or> c = 8239 \<or> c = 8287 \<or>
     c = 12288"

definition ascii_upper :: "nat \<Rightarrow> bool" where
  "ascii_upper c \<longleftrightarrow> 65 \<le> c \<and> c \<le> 90"

definition ascii_lower :: "nat \<Rightarrow> bool" where
  "ascii_lower c \<longleftrightarrow> 97 \<le> c \<and> c \<le> 122"

definition ascii_digit :: "nat \<Rightarrow> bool" where
  "ascii_digit c \<longleftrightarrow> 48 \<le> c \<and> c \<le> 57"

definition py_isalnum :: "ucd \<Rightarrow> nat \<Rightarrow> bool" where
  "py_isalnum db c =
     (if c < 128 then ascii_upper c \<or> ascii_lower c \<or> ascii_digit c else uc_alnum db c)"

text \<open>\<open>\w\<close> of a \<open>str\<close> pattern: alphanumeric or the underscore (95).\<close>

definition re_word :: "ucd \<Rightarrow> nat \<Rightarrow> bool" where
  "re_word db c \<longleftrightarrow> py_isalnum db c \<or> c = 95"

text \<open>The class \<open>[\s\-]\<close>: white space or the hyphen-minus (45).\<close>

definition space_or_hyphen :: "nat \<Rightarrow> bool" where
  "space_or_hyphen c \<longleftrightarrow> py_isspace c \<or> c = 45"

subsection \<open>\<open>str.lower\<close>\<close>

text \<open>
  \<open>str.lower\<close> maps every code point through the full lower-case mapping (one code
  point may become several), except the capital sigma (931), which becomes the final
  sigma (962) when a cased letter precedes it, case-ignorable code points skipped, and
  no cased letter follows it, case-ignorable code points skipped; otherwise it becomes
  the small sigma (963).
\<close>

definition to_lower_full :: "ucd \<Rightarrow> nat \<Rightarrow> ustring" where
  "to_lower_full db c =
     (if c < 128 then [if ascii_upper c then c + 32 else c] else uc_lower db c)"

definition handle_capital_sigma :: "ucd \<Rightarrow> ustring \<Rightarrow> ustring \<Rightarrow> nat" where
  "handle_capital_sigma db left right =
     (case dropWhile (uc_case_ignorable db) left of
        [] \<Rightarrow> 963
      | p # _ \<Rightarrow>
          if uc_cased db p then
            (case dropWhile (uc_case_ignorable db) right of
               [] \<Rightarrow> 962
             | q # _ \<Rightarrow> if uc_cased db q then 963 else 962)
          else 963)"

text \<open>
  \<open>lower_from db left s\<close> lower-cases \<open>s\<close>, where \<open>left\<close> holds the code points
  to the left of \<open>s\<close>, nearest first.
\<close>

fun lower_from :: "ucd \<Rightarrow> ustring \<Rightarrow> ustring \<Rightarrow> ustring" where
  "lower_from db left [] = []"
| "lower_from db left (c # cs) =
     (if c = 931 then [handle_capital_sigma db left cs] else to_lower_full db c)
     @ lower_from db (c # left) cs"

definition str_lower :: "ucd \<Rightarrow> ustring \<Rightarrow> ustring" where
  "str_lower db s = lower_from db [] s"

subsection \<open>\<open>str.strip\<close>\<close>

definition strip_with :: "(nat \<Rightarrow> bool) \<Rightarrow> ustring \<Rightarrow> ustring" where
  "strip_with P s = rev (dropWhile P (rev (dropWhile P s)))"

text \<open>\<open>s.strip(chars)\<close> and \<open>s.strip()\<close>.\<close>

definition strip_chars :: "ustring \<Rightarrow> ustring \<Rightarrow> ustring" where
  "strip_chars chars s = strip_with (\<lambda>c. c \<in> set chars) s"

definition strip :: "ustring \<Rightarrow> ustring" where
  "strip s = strip_with py_isspace s"

section \<open>core/utils.py: slugify\<close>

text \<open>\<open>value.encode("ascii", "ignore").decode("ascii")\<close>: the code points below 128.\<close>

definition ascii_ignore :: "ustring \<Rightarrow> ustring" where
  "ascii_ignore s = filter (\<lambda>c. c < 128) s"

text \<open>
  \<open>re.sub(r"[\s\-]+", "_", value)\<close>: every maximal run of white space and hyphens
  becomes one underscore.
\<close>

function sub_runs :: "(nat \<Rightarrow> bool) \<Rightarrow> ustring \<Rightarrow> ustring" where
  "sub_runs P [] = []"
| "sub_runs P (c # cs) =
     (if P c then 95 # sub_runs P (dropWhile P cs) else c # sub_runs P cs)"
  by pat_completeness auto
termination
  by (relation "measure (\<lambda>(P, s). length s)")
     (auto simp: le_imp_less_Suc length_dropWhile_le)

definition slugify :: "ucd \<Rightarrow> ustring \<Rightarrow> bool \<Rightarrow> ustring" where
  "slugify db value allow_unicode =
     (let v1 = (if \<not> allow_unicode then ascii_ignore value else value);
          v2 = sub_runs space_or_hyphen v1;
          v3 = filter (re_word db) v2
      in strip_chars [95] (str_lower db v3))"

text \<open>What the specification promises of a slug.\<close>

definition slug_char :: "nat \<Rightarrow> bool" where
  "slug_char c \<longleftrightarrow> ascii_lower c \<or> ascii_digit c \<or> c = 95"

fun starts_with :: "nat \<Rightarrow> ustring \<Rightarrow> bool" where
  "starts_with u [] = False"
| "starts_with u (c # cs) = (c = u)"

definition ends_with :: "nat \<Rightarrow> ustring \<Rightarrow> bool" where
  "ends_with u s = starts_with u (rev s)"

subsection \<open>What the Unicode mode needs of the tables\<close>

text \<open>
  A code point is stable under \<open>str.lower\<close> when it is not the capital sigma and its
  lower-case mapping is itself.
\<close>

definition lower_stable :: "ucd \<Rightarrow> nat \<Rightarrow> bool" where
  "lower_stable db d \<longleftrightarrow> d \<noteq> 931 \<and> to_lower_full db d = [d]"

text \<open>
  Two facts of the Unicode character database, as far as \<open>str.lower\<close> reads it: what a
  lower-case mapping yields is stable, the two small sigmas included; and the mapping of
  a code point that is neither white space nor a hyphen yields neither.
\<close>

definition ucd_lower_ok :: "ucd \<Rightarrow> bool" where
  "ucd_lower_ok db \<longleftrightarrow>
     (\<forall>c d. 128 \<le> c \<and> d \<in> set (uc_lower db c) \<longrightarrow>
        lower_stable db d \<and> (\<not> space_or_hyphen c \<longrightarrow> \<not> space_or_hyphen d))
     \<and> lower_stable db 962 \<and> lower_stable db 963"

text \<open>
  A fragment of the database, for running the Unicode mode on examples: the letters of
  Latin-1 and the Greek block from 913 to 971, with their lower-case mapping.
\<close>

definition latin_greek_letter :: "nat \<Rightarrow> bool" where
  "latin_greek_letter c \<longleftrightarrow>
     (192 \<le> c \<and> c \<le> 255 \<and> c \<noteq> 215 \<and> c \<noteq> 247) \<or> (913 \<le> c \<and> c \<le> 971 \<and> c \<noteq> 930)"

definition latin_greek_ucd :: ucd where
  "latin_greek_ucd =
     \<lparr> uc_alnum = latin_greek_letter,
       uc_lower = (\<lambda>c. if (192 \<le> c \<and> c \<le> 222 \<and> c \<noteq> 215) \<or> (913 \<le> c \<and> c \<le> 939 \<and> c \<noteq> 930)
                        then [c + 32] else [c]),
       uc_cased = (\<lambda>c. ascii_upper c \<or> ascii_lower c \<or> latin_greek_letter c),
       uc_case_ignorable = (\<lambda>c. c \<in> set [39, 46, 58, 94, 96, 168, 173, 175, 180, 183, 184]) \<rparr>"

section \<open>core/extractor.py: parse_problem_text\<close>

text \<open>
  \<open>str.splitlines()\<close>: a line ends at a line feed (10), a vertical tab, a form feed, a
  carriage return (13, with a line feed right after it as one boundary), the separators
  28-30, NEL (133) and the Unicode line and paragraph separators; the last line needs no
  terminator, and no empty line follows a final terminator.
\<close>

definition is_linebreak :: "nat \<Rightarrow> bool" where
  "is_linebreak c \<longleftrightarrow> (10 \<le> c \<and> c \<le> 13) \<or> (28 \<le> c \<and> c \<le> 30) \<or> c = 133 \<or> c = 8232 \<or> c = 8233"

fun after_break :: "ustring \<Rightarrow> ustring" where
  "after_break [] = []"
| "after_break (c # r) = (if c = 13 \<and> r \<noteq> [] \<and> hd r = 10 then tl r else r)"

function splitlines :: "ustring \<Rightarrow> ustring list" where
  "splitlines s =
     (if s = [] then []
      else takeWhile (\<lambda>c. \<not> is_linebreak c) s
           # splitlines (after_break (dropWhile (\<lambda>c. \<not> is_linebreak c) s)))"
  by pat_completeness auto
termination
proof (relation "measure length")
  fix s :: ustring
  assume ne: "s \<noteq> []"
  let ?d = "dropWhile (\<lambda>c. \<not> is_linebreak c) s"
  have "length (after_break ?d) < length s"
  proof (cases ?d)
    case Nil
    then have "after_break ?d = []" by (simp only: after_break.simps)
    with ne show ?thesis by simp
  next
    case (Cons c r)
    have "length (after_break (c # r)) \<le> length r" by simp
    also have "length r < length (c # r)" by simp
    also from Cons have "length (c # r) \<le> length s" by (metis length_dropWhile_le)
    finally show ?thesis using Cons by simp
  qed
  then show "(after_break ?d, s) \<in> measure length" by simp
qed simp

declare splitlines.simps [simp del]

text \<open>\<open>"\n".join(v)\<close>.\<close>

fun join_with :: "ustring \<Rightarrow> ustring list \<Rightarrow> ustring" where
  "join_with sep [] = []"
| "join_with sep [x] = x"
| "join_with sep (x # y # ys) = x @ sep @ join_with sep (y # ys)"

subsection \<open>The header patterns\<close>

text \<open>
  A letter of a pattern compiled with \<open>re.IGNORECASE\<close> matches itself, its capital, and
  the code points that Unicode folds to it: the dotted capital I (304) and the dotless i
  (305) for \<open>i\<close>, the long s (383) for \<open>s\<close>, the Kelvin sign (8490) for \<open>k\<close>.
\<close>

definition ci_match :: "nat \<Rightarrow> nat \<Rightarrow> bool" where
  "ci_match p c \<longleftrightarrow>
     c = p \<or> (ascii_upper c \<and> c + 32 = p) \<or> (p = 105 \<and> (c = 304 \<or> c = 305)) \<or>
     (p = 115 \<and> c = 383) \<or> (p = 107 \<and> c = 8490)"

fun prefix_ci :: "ustring \<Rightarrow> ustring \<Rightarrow> bool" where
  "prefix_ci [] s = True"
| "prefix_ci (p # ps) [] = False"
| "prefix_ci (p # ps) (c # cs) = (ci_match p c \<and> prefix_ci ps cs)"

text \<open>\<open>\b\<close> between the code points to the left and to the right of a position.\<close>

definition at_boundary :: "ucd \<Rightarrow> ustring \<Rightarrow> ustring \<Rightarrow> bool" where
  "at_boundary db left right \<longleftrightarrow>
     (left \<noteq> [] \<and> re_word db (last left)) \<noteq> (right \<noteq> [] \<and> re_word db (hd right))"

definition match_word :: "ucd \<Rightarrow> ustring \<Rightarrow> ustring \<Rightarrow> bool" where
  "match_word db w line \<longleftrightarrow>
     prefix_ci w line \<and> at_boundary db (take (length w) line) (drop (length w) line)"

text \<open>
  A pattern \<open>^(?:w1|w2s?)\b\<close> is the list of the words it tries, in the order the
  matcher tries them: the alternatives from left to right, an optional \<open>s\<close> first taken,
  then left out.  \<open>pattern_match\<close> is the length of \<open>pattern.match(line).group(0)\<close>.
\<close>

fun pattern_match :: "ucd \<Rightarrow> ustring list \<Rightarrow> ustring \<Rightarrow> nat option" where
  "pattern_match db [] line = None"
| "pattern_match db (w # ws) line =
     (if match_word db w line then Some (length w) else pattern_match db ws line)"

datatype section_key = Statement | Input | Output | Constraints | Examples

definition SECTION_PATTERNS :: "(section_key \<times> ustring list) list" where
  "SECTION_PATTERNS =
     [(Statement, [ustr ''statement'', ustr ''problem'', ustr ''instructions'', ustr ''instruction'']),
      (Input, [ustr ''input'']),
      (Output, [ustr ''output'']),
      (Constraints, [ustr ''constraints'', ustr ''constraint'', ustr ''limits'', ustr ''limit'']),
      (Examples, [ustr ''examples'', ustr ''example''])]"

text \<open>The inner loop: the first pattern that matches, with the length of its match.\<close>

fun find_header :: "ucd \<Rightarrow> (section_key \<times> ustring list) list \<Rightarrow> ustring \<Rightarrow> (section_key \<times> nat) option" where
  "find_header db [] line = None"
| "find_header db ((name, pat) # ps) line =
     (case pattern_match db pat line of
        Some n \<Rightarrow> Some (name, n)
      | None \<Rightarrow> find_header db ps line)"

subsection \<open>The loop over the lines\<close>

text \<open>
  The state of the loop: \<open>current_section\<close> and the dictionary \<open>sections\<close>, whose keys
  are the five sections from the first line of the function on.
\<close>

type_synonym parse_state = "section_key \<times> (section_key \<Rightarrow> ustring list)"

definition append_line :: "section_key \<Rightarrow> ustring \<Rightarrow> (section_key \<Rightarrow> ustring list) \<Rightarrow> section_key \<Rightarrow> ustring list" where
  "append_line name line sections = sections(name := sections name @ [line])"

definition parse_line :: "ucd \<Rightarrow> ustring \<Rightarrow> parse_state \<Rightarrow> parse_state" where
  "parse_line db raw_line st =
     (let line = strip raw_line in
      if line = [] then st
      else (case find_header db SECTION_PATTERNS line of
              Some (name, n) \<Rightarrow> (name, append_line name (strip (drop n line)) (snd st))
            | None \<Rightarrow> (fst st, append_line (fst st) line (snd st))))"

definition parse_lines :: "ucd \<Rightarrow> ustring \<Rightarrow> parse_state" where
  "parse_lines db text = fold (parse_line db) (splitlines text) (Statement, \<lambda>k. [])"

text \<open>The returned dictionary, as the list of its items in the order of its keys.\<close>

definition parse_problem_text :: "ucd \<Rightarrow> ustring \<Rightarrow> (section_key \<times> ustring) list" where
  "parse_problem_text db text =
     (let sections = snd (parse_lines db text) in
      map (\<lambda>k. (k, strip (join_with [10] (sections k))))
        (filter (\<lambda>k. sections k \<noteq> []) (map fst SECTION_PATTERNS)))"


text \<open>The tables of a text that is all ASCII: nothing beyond ASCII is consulted.\<close>

definition ascii_ucd :: ucd where
  "ascii_ucd =
     \<lparr> uc_alnum = (\<lambda>c. False), uc_lower = (\<lambda>c. [c]),
       uc_cased = (\<lambda>c. ascii_upper c \<or> ascii_lower c),
       uc_case_ignorable = (\<lambda>c. c \<in> set [39, 46, 58, 94, 96]) \<rparr>"

section \<open>Python values and their JSON text\<close>

subsection \<open>\<open>str(n)\<close> for integers\<close>

function str_nat :: "nat \<Rightarrow> ustring" where
  "str_nat n = (if n < 10 then [48 + n] else str_nat (n div 10) @ [48 + n mod 10])"
  by pat_completeness auto
termination
  by (relation "measure id") auto

declare str_nat.simps [simp del]

definition str_int :: "int \<Rightarrow> ustring" where
  "str_int i = (if i < 0 then 45 # str_nat (nat (- i)) else str_nat (nat i))"

subsection \<open>The values that \<open>json\<close> serializes\<close>

text \<open>
  The values a test case or a JSON document is made of: \<open>None\<close>, booleans, integers,
  strings, lists, tuples, and dictionaries whose keys are strings, integers, booleans or
  \<open>None\<close> (the keys \<open>json.dump\<close> accepts), as the list of their items in insertion
  order.  Floats are left out.
\<close>

datatype pykey = KStr ustring | KInt int | KBool bool | KNone

datatype pyval =
    PNone
  | PBool bool
  | PInt int
  | PStr ustring
  | PList "pyval list"
  | PTuple "pyval list"
  | PDict "(pykey \<times> pyval) list"

text \<open>\<open>d.get(k)\<close>: the value of the key, \<open>None\<close> when the key is missing.\<close>

definition dict_get :: "(pykey \<times> pyval) list \<Rightarrow> pykey \<Rightarrow> pyval" where
  "dict_get d k = (case map_of d k of Some v \<Rightarrow> v | None \<Rightarrow> PNone)"

subsection \<open>\<open>json.dumps(o, indent=2)\<close>\<close>

definition hex_digit :: "nat \<Rightarrow> nat" where
  "hex_digit d = (if d < 10 then 48 + d else 87 + d)"

text \<open>\<open>'\\u{0:04x}'.format(n)\<close>, for \<open>n\<close> below 65536.\<close>

definition u_escape :: "nat \<Rightarrow> ustring" where
  "u_escape n =
     [92, 117, hex_digit (n div 4096 mod 16), hex_digit (n div 256 mod 16),
      hex_digit (n div 16 mod 16), hex_digit (n mod 16)]"

text \<open>
  One code point of a string, as the encoder writes it.  The quote, the backslash and
  the controls are always escaped; with \<open>ensure_ascii\<close>, so is everything above the
  tilde, beyond the basic plane as a surrogate pair.
\<close>

definition escape_char :: "bool \<Rightarrow> nat \<Rightarrow> ustring" where
  "escape_char ensure_ascii c =
     (if c = 34 then [92, 34]
      else if c = 92 then [92, 92]
      else if c = 10 then [92, 110]
      else if c = 13 then [92, 114]
      else if c = 9 then [92, 116]
      else if c = 8 then [92, 98]
      else if c = 12 then [92, 102]
      else if c < 32 then u_escape c
      else if ensure_ascii \<and> 126 < c then
        (if c < 65536 then u_escape c
         else u_escape (55296 + (c - 65536) div 1024 mod 1024)
              @ u_escape (56320 + (c - 65536) mod 1024))
      else [c])"

definition encode_string :: "bool \<Rightarrow> ustring \<Rightarrow> ustring" where
  "encode_string ensure_ascii s = [34] @ concat (map (escape_char ensure_ascii) s) @ [34]"

text \<open>The key of an item, as the encoder turns it into a string.\<close>

fun key_str :: "pykey \<Rightarrow> ustring" where
  "key_str (KStr s) = s"
| "key_str (KInt i) = str_int i"
| "key_str (KBool b) = (if b then ustr ''true'' else ustr ''false'')"
| "key_str KNone = ustr ''null''"

text \<open>A line break and the indentation of a nesting level, two spaces a level.\<close>

definition newline_indent :: "nat \<Rightarrow> ustring" where
  "newline_indent level = 10 # replicate (2 * level) 32"

fun iterencode :: "bool \<Rightarrow> nat \<Rightarrow> pyval \<Rightarrow> ustring"
  and iterencode_list :: "bool \<Rightarrow> nat \<Rightarrow> pyval list \<Rightarrow> ustring"
  and iterencode_dict :: "bool \<Rightarrow> nat \<Rightarrow> (pykey \<times> pyval) list \<Rightarrow> ustring"
where
  "iterencode ea level PNone = ustr ''null''"
| "iterencode ea level (PBool b) = (if b then ustr ''true'' else ustr ''false'')"
| "iterencode ea level (PInt i) = str_int i"
| "iterencode ea level (PStr s) = encode_string ea s"
| "iterencode ea level (PList xs) =
     (if xs = [] then ustr ''[]''
      else [91] @ newline_indent (level + 1) @ iterencode_list ea (level + 1) xs
           @ newline_indent level @ [93])"
| "iterencode ea level (PTuple xs) =
     (if xs = [] then ustr ''[]''
      else [91] @ newline_indent (level + 1) @ iterencode_list ea (level + 1) xs
           @ newline_indent level @ [93])"
| "iterencode ea level (PDict kvs) =
     (if kvs = [] then ustr ''{}''
      else [123] @ newline_indent (level + 1) @ iterencode_dict ea (level + 1) kvs
           @ newline_indent level @ [125])"
| "iterencode_list ea level [] = []"
| "iterencode_list ea level [x] = iterencode ea level x"
| "iterencode_list ea level (x # y # ys) =
     iterencode ea level x @ [44] @ newline_indent level @ iterencode_list ea level (y # ys)"
| "iterencode_dict ea level [] = []"
| "iterencode_dict ea level [(k, v)] =
     encode_string ea (key_str k) @ [58, 32] @ iterencode ea level v"
| "iterencode_dict ea level ((k, v) # kv # kvs) =
     encode_string ea (key_str k) @ [58, 32] @ iterencode ea level v
     @ [44] @ newline_indent level @ iterencode_dict ea level (kv # kvs)"

text \<open>\<open>json.dumps(o, indent=2)\<close>, and with \<open>ensure_ascii=False\<close>.\<close>

definition json_dumps :: "bool \<Rightarrow> pyval \<Rightarrow> ustring" where
  "json_dumps ensure_ascii obj = iterencode ensure_ascii 0 obj"

text \<open>The number a string of decimal digits stands for.\<close>

definition digits_value :: "ustring \<Rightarrow> nat" where
  "digits_value ds = foldl (\<lambda>a c. 10 * a + (c - 48)) 0 ds"

subsection \<open>\<open>json.loads\<close>, and the same text read as Python source\<close>

text \<open>
  The scanner of \<open>json.decoder\<close> reads a document from the left and returns the value
  with the rest of the text.  The same grammar is the part of Python's expression
  grammar that \<open>json.dumps\<close> writes into; read as Python source, the three words
  \<open>null\<close>, \<open>true\<close> and \<open>false\<close> are names that nothing binds, and an escape
  \<open>\uXXXX\<close> is one code point, never half of a pair.
\<close>

datatype reading = JsonDocument | PythonSource

datatype scan_error = JSONDecodeError | NameError | FloatValue | OutOfFuel

definition is_ws :: "nat \<Rightarrow> bool" where
  "is_ws c \<longleftrightarrow> c = 32 \<or> c = 9 \<or> c = 10 \<or> c = 13"

definition skip_ws :: "ustring \<Rightarrow> ustring" where
  "skip_ws s = dropWhile is_ws s"

definition hex_value :: "nat \<Rightarrow> nat option" where
  "hex_value c =
     (if ascii_digit c then Some (c - 48)
      else if 97 \<le> c \<and> c \<le> 102 then Some (c - 87)
      else if 65 \<le> c \<and> c \<le> 70 then Some (c - 55)
      else None)"

text \<open>\<open>_decode_uXXXX\<close>: the four hexadecimal digits after \<open>\u\<close>.\<close>

fun decode_uXXXX :: "ustring \<Rightarrow> nat option" where
  "decode_uXXXX (a # b # c # d # rest) =
     (case (hex_value a, hex_value b, hex_value c, hex_value d) of
        (Some x3, Some x2, Some x1, Some x0) \<Rightarrow> Some (4096 * x3 + 256 * x2 + 16 * x1 + x0)
      | _ \<Rightarrow> None)"
| "decode_uXXXX s = None"

text \<open>The escapes of one letter: \<open>\"\<close>, \<open>\\\<close>, \<open>\/\<close>, \<open>\b\<close>, \<open>\f\<close>, \<open>\n\<close>, \<open>\r\<close>, \<open>\t\<close>.\<close>

definition backslash :: "nat \<Rightarrow> nat option" where
  "backslash e =
     (if e = 34 then Some 34 else if e = 92 then Some 92 else if e = 47 then Some 47
      else if e = 98 then Some 8 else if e = 102 then Some 12 else if e = 110 then Some 10
      else if e = 114 then Some 13 else if e = 116 then Some 9 else None)"

text \<open>
  \<open>scanstring\<close>, from the code point after the opening quote: the string and the text
  after the closing quote.  A control code point ends the scan with an error, as does a
  malformed escape; in a JSON document a high surrogate followed by the escape of a low
  one is one code point.
\<close>

function scanstring :: "reading \<Rightarrow> ustring \<Rightarrow> (ustring \<times> ustring) option" where
  "scanstring m [] = None"
| "scanstring m (c # cs) =
     (if c = 34 then Some ([], cs)
      else if c < 32 then None
      else if c \<noteq> 92 then map_option (\<lambda>(s, r). (c # s, r)) (scanstring m cs)
      else (case cs of
              [] \<Rightarrow> None
            | e # r \<Rightarrow>
                if e \<noteq> 117 then
                  (case backslash e of
                     None \<Rightarrow> None
                   | Some ch \<Rightarrow> map_option (\<lambda>(s, r'). (ch # s, r')) (scanstring m r))
                else (case decode_uXXXX r of
                        None \<Rightarrow> None
                      | Some uni \<Rightarrow>
                          if m = JsonDocument \<and> 55296 \<le> uni \<and> uni \<le> 56319
                             \<and> take 2 (drop 4 r) = [92, 117] then
                            (case decode_uXXXX (drop 6 r) of
                               None \<Rightarrow> None
                             | Some uni2 \<Rightarrow>
                                 if 56320 \<le> uni2 \<and> uni2 \<le> 57343 then
                                   map_option
                                     (\<lambda>(s, r'). ((65536 + (uni - 55296) * 1024 + (uni2 - 56320)) # s, r'))
                                     (scanstring m (drop 10 r))
                                 else map_option (\<lambda>(s, r'). (uni # s, r')) (scanstring m (drop 4 r)))
                          else map_option (\<lambda>(s, r'). (uni # s, r')) (scanstring m (drop 4 r)))))"
  by pat_completeness auto
termination
  by (relation "measure (\<lambda>(m, s). length s)") auto

declare scanstring.simps [simp del]

text \<open>
  \<open>match_number\<close>: an optional minus, then a zero or a digit from 1 to 9 with the
  digits after it.  A fraction or an exponent after the integer makes a float, which
  is outside these values.
\<close>

definition float_follows :: "ustring \<Rightarrow> bool" where
  "float_follows r =
     (case r of
        [] \<Rightarrow> False
      | c # r1 \<Rightarrow>
          if c = 46 then r1 \<noteq> [] \<and> ascii_digit (hd r1)
          else if c = 101 \<or> c = 69 then
            (case r1 of
               [] \<Rightarrow> False
             | d # r2 \<Rightarrow>
                 if d = 45 \<or> d = 43 then r2 \<noteq> [] \<and> ascii_digit (hd r2) else ascii_digit d)
          else False)"

definition match_integer :: "ustring \<Rightarrow> (ustring \<times> ustring) option" where
  "match_integer s =
     (case s of
        [] \<Rightarrow> None
      | d # r \<Rightarrow>
          if d = 48 then Some ([48], r)
          else if 49 \<le> d \<and> d \<le> 57 then Some (d # takeWhile ascii_digit r, dropWhile ascii_digit r)
          else None)"

definition match_number :: "ustring \<Rightarrow> (scan_error + pyval \<times> ustring) option" where
  "match_number s =
     (let negative = (s \<noteq> [] \<and> hd s = 45) in
      case match_integer (if negative then tl s else s) of
        None \<Rightarrow> None
      | Some (ds, r) \<Rightarrow>
          Some (if float_follows r then Inl FloatValue
                else Inr (PInt (if negative then - int (digits_value ds) else int (digits_value ds)), r)))"

text \<open>\<open>dict(pairs)\<close>: a key that comes again keeps its place and takes the new value.\<close>

definition dict_set :: "(pykey \<times> pyval) list \<Rightarrow> pykey \<Rightarrow> pyval \<Rightarrow> (pykey \<times> pyval) list" where
  "dict_set d k v =
     (if k \<in> set (map fst d) then map (\<lambda>(k', v'). if k' = k then (k', v) else (k', v')) d
      else d @ [(k, v)])"

definition dict_of_pairs :: "(pykey \<times> pyval) list \<Rightarrow> (pykey \<times> pyval) list" where
  "dict_of_pairs ps = foldl (\<lambda>d (k, v). dict_set d k v) [] ps"

text \<open>
  A word of the three: in a JSON document its value, in Python source a NameError.
\<close>

definition word_value :: "reading \<Rightarrow> pyval \<Rightarrow> scan_error + pyval" where
  "word_value m v = (if m = JsonDocument then Inr v else Inl NameError)"

text \<open>
  \<open>scan_once\<close> with \<open>JSONArray\<close> and \<open>JSONObject\<close>.  The first argument bounds the
  number of nested calls; \<open>json_loads\<close> starts with more than the text can use.
  \<open>scan_items\<close> and \<open>scan_pairs\<close> start at a value or a key, after the white space.
\<close>

fun scan_once :: "reading \<Rightarrow> nat \<Rightarrow> ustring \<Rightarrow> scan_error + pyval \<times> ustring"
  and scan_items :: "reading \<Rightarrow> nat \<Rightarrow> ustring \<Rightarrow> scan_error + pyval list \<times> ustring"
  and scan_pairs :: "reading \<Rightarrow> nat \<Rightarrow> ustring \<Rightarrow> scan_error + (pykey \<times> pyval) list \<times> ustring"
where
  "scan_once m 0 s = Inl OutOfFuel"
| "scan_once m (Suc n) s =
     (case s of
        [] \<Rightarrow> Inl JSONDecodeError
      | c # cs \<Rightarrow>
          if c = 34 then
            (case scanstring m cs of
               None \<Rightarrow> Inl JSONDecodeError
             | Some (str, r) \<Rightarrow> Inr (PStr str, r))
          else if c = 123 then
            (case skip_ws cs of
               [] \<Rightarrow> Inl JSONDecodeError
             | d # r \<Rightarrow>
                 if d = 125 then Inr (PDict [], r)
                 else (case scan_pairs m n (d # r) of
                         Inl e \<Rightarrow> Inl e
                       | Inr (ps, r') \<Rightarrow> Inr (PDict (dict_of_pairs ps), r')))
          else if c = 91 then
            (case skip_ws cs of
               [] \<Rightarrow> Inl JSONDecodeError
             | d # r \<Rightarrow>
                 if d = 93 then Inr (PList [], r)
                 else (case scan_items m n (d # r) of
                         Inl e \<Rightarrow> Inl e
                       | Inr (vs, r') \<Rightarrow> Inr (PList vs, r')))
          else if take 4 s = ustr ''null'' then
            (case word_value m PNone of Inl e \<Rightarrow> Inl e | Inr v \<Rightarrow> Inr (v, drop 4 s))
          else if take 4 s = ustr ''true'' then
            (case word_value m (PBool True) of Inl e \<Rightarrow> Inl e | Inr v \<Rightarrow> Inr (v, drop 4 s))
          else if take 5 s = ustr ''false'' then
            (case word_value m (PBool False) of Inl e \<Rightarrow> Inl e | Inr v \<Rightarrow> Inr (v, drop 5 s))
          else (case match_number s of
                  Some (Inr (v, r)) \<Rightarrow> Inr (v, r)
                | Some (Inl e) \<Rightarrow> Inl e
                | None \<Rightarrow>
                    if take 3 s = ustr ''NaN'' \<or> take 8 s = ustr ''Infinity''
                       \<or> take 9 s = ustr ''-Infinity''
                    then Inl FloatValue else Inl JSONDecodeError))"
| "scan_items m 0 s = Inl OutOfFuel"
| "scan_items m (Suc n) s =
     (case scan_once m n s of
        Inl e \<Rightarrow> Inl e
      | Inr (v, r) \<Rightarrow>
          (case skip_ws r of
             [] \<Rightarrow> Inl JSONDecodeError
           | c # r1 \<Rightarrow>
               if c = 93 then Inr ([v], r1)
               else if c \<noteq> 44 then Inl JSONDecodeError
               else (case scan_items m n (skip_ws r1) of
                       Inl e \<Rightarrow> Inl e
                     | Inr (vs, r2) \<Rightarrow> Inr (v # vs, r2))))"
| "scan_pairs m 0 s = Inl OutOfFuel"
| "scan_pairs m (Suc n) s =
     (case s of
        [] \<Rightarrow> Inl JSONDecodeError
      | q # cs \<Rightarrow>
          if q \<noteq> 34 then Inl JSONDecodeError
          else (case scanstring m cs of
                  None \<Rightarrow> Inl JSONDecodeError
                | Some (key, r) \<Rightarrow>
                    (case skip_ws r of
                       [] \<Rightarrow> Inl JSONDecodeError
                     | c # r1 \<Rightarrow>
                         if c \<noteq> 58 then Inl JSONDecodeError
                         else (case scan_once m n (skip_ws r1) of
                                 Inl e \<Rightarrow> Inl e
                               | Inr (v, r2) \<Rightarrow>
                                   (case skip_ws r2 of
                                      [] \<Rightarrow> Inl JSONDecodeError
                                    | c2 # r3 \<Rightarrow>
                                        if c2 = 125 then Inr ([(KStr key, v)], r3)
                                        else if c2 \<noteq> 44 then Inl JSONDecodeError
                                        else (case scan_pairs m n (skip_ws r3) of
                                                Inl e \<Rightarrow> Inl e
                                              | Inr (ps, r4) \<Rightarrow> Inr ((KStr key, v) # ps, r4)))))))"

text \<open>\<open>json.loads(s)\<close>: one value between white space, and nothing after it.\<close>

definition scan_text :: "reading \<Rightarrow> ustring \<Rightarrow> scan_error + pyval" where
  "scan_text m s =
     (case scan_once m (Suc (length s)) (skip_ws s) of
        Inl e \<Rightarrow> Inl e
      | Inr (v, r) \<Rightarrow> if skip_ws r = [] then Inr v else Inl JSONDecodeError)"

definition json_loads :: "ustring \<Rightarrow> scan_error + pyval" where
  "json_loads s = scan_text JsonDocument s"

section \<open>Files and paths\<close>

text \<open>
  A file holds text, bytes, or a ZIP archive (the list of its entries, name and
  content, in the order they were added); \<open>Incomplete\<close> is a text file whose writer
  raised before the end.  The file system maps a path to its file; a directory exists as
  soon as a path below it does, and every path is writable.
\<close>

datatype content =
  Text ustring | Bytes "nat list" | Zip "(ustring \<times> content) list" | Incomplete

type_synonym filesys = "ustring \<rightharpoonup> content"

datatype exn =
  IndexError | FileNotFoundError | FileExistsError | NotADirectoryError | UnicodeEncodeError
  | External nat

datatype 'a outcome = Done 'a | Raised exn

text \<open>
  \<open>str(Path(d) / n)\<close> for a directory \<open>d\<close> and a relative name \<open>n\<close>;
  \<open>Path(p).name\<close>, the last component; \<open>Path(p).stem\<close>, the name without its last
  suffix (a name that starts or ends with its only dot has none).
\<close>

definition path_join :: "ustring \<Rightarrow> ustring \<Rightarrow> ustring" where
  "path_join d n = (if d \<noteq> [] \<and> last d = 47 then d @ n else d @ [47] @ n)"

definition path_name :: "ustring \<Rightarrow> ustring" where
  "path_name p = rev (takeWhile (\<lambda>c. c \<noteq> 47) (rev p))"

definition path_stem :: "ustring \<Rightarrow> ustring" where
  "path_stem p =
     (let name = path_name p;
          suffix = rev (takeWhile (\<lambda>c. c \<noteq> 46) (rev name));
          i = length name - length suffix - 1
      in if 46 \<in> set name \<and> 0 < i \<and> suffix \<noteq> [] then take i name else name)"

text \<open>
  The code points UTF-8 encodes: everything up to 1114111 but the surrogates.  A text
  file opened with \<open>encoding="utf-8"\<close> takes a \<open>write\<close> whole or, when the text
  has any other code point, raises and takes nothing of it.
\<close>

definition scalar_value :: "nat \<Rightarrow> bool" where
  "scalar_value c \<longleftrightarrow> c < 55296 \<or> (57343 < c \<and> c < 1114112)"

definition encodable :: "ustring \<Rightarrow> bool" where
  "encodable s = list_all scalar_value s"

text \<open>
  The directories above a path: its prefixes that end before a separator, the root
  left out.  \<open>Path(p).mkdir(parents=True, exist_ok=True)\<close> raises when the path is a
  regular file, or when one of the directories above it is; otherwise the directory
  exists afterwards, which changes no file.
\<close>

definition path_parents :: "ustring \<Rightarrow> ustring list" where
  "path_parents p = map (\<lambda>i. take i p) (filter (\<lambda>i. p ! i = 47) [1..<length p])"

definition mkdir_parents :: "ustring \<Rightarrow> filesys \<Rightarrow> exn option" where
  "mkdir_parents p fs =
     (if fs p \<noteq> None then Some FileExistsError
      else if list_ex (\<lambda>a. fs a \<noteq> None) (path_parents p) then Some NotADirectoryError
      else None)"

section \<open>core/test_builder.py\<close>

type_synonym test_case = "(pykey \<times> pyval) list"

text \<open>The table \<open>param_lines\<close>: one tuple \<open>(input, expected)\<close> for each case.\<close>

definition param_lines :: "test_case list \<Rightarrow> pyval" where
  "param_lines test_cases =
     PList (map (\<lambda>c. PTuple [dict_get c (KStr (ustr ''input'')),
                              dict_get c (KStr (ustr ''expected''))]) test_cases)"

text \<open>
  What \<open>build_pytest_file\<close> writes, one entry for each \<open>f.write\<close> in the order of
  the calls; the text of the file is all of them, one after the other.
\<close>

definition pytest_file_chunks :: "test_case list \<Rightarrow> ustring \<Rightarrow> ustring \<Rightarrow> ustring list" where
  "pytest_file_chunks test_cases module_name func_name =
     [ustr ''import pytest'' @ [10],
      ustr ''from '' @ module_name @ ustr '' import '' @ func_name @ [10, 10],
      ustr ''TEST_CASES = '',
      json_dumps True (param_lines test_cases),
      [10, 10],
      ustr ''@pytest.mark.parametrize(\"inp, expected\", TEST_CASES)'' @ [10],
      ustr ''def test_'' @ func_name @ ustr ''(inp, expected):'' @ [10],
      ustr ''    if isinstance(inp, list):'' @ [10],
      ustr ''        result = '' @ func_name @ ustr ''(*inp)'' @ [10],
      ustr ''    elif inp is None:'' @ [10],
      ustr ''        result = '' @ func_name @ ustr ''()'' @ [10],
      ustr ''    else:'' @ [10],
      ustr ''        result = '' @ func_name @ ustr ''(inp)'' @ [10],
      ustr ''    assert result == expected'' @ [10]]"


text \<open>
  \<open>build_pytest_file\<close>: the file is opened for writing as UTF-8 and takes the writes in
  order; the first one that cannot be encoded raises, and the file keeps the writes
  before it.
\<close>

definition build_pytest_file ::
    "test_case list \<Rightarrow> ustring \<Rightarrow> ustring \<Rightarrow> ustring \<Rightarrow> filesys \<Rightarrow> unit outcome \<times> filesys" where
  "build_pytest_file test_cases module_name output_path func_name fs =
     (let chunks = pytest_file_chunks test_cases module_name func_name;
          written = takeWhile encodable chunks
      in (if list_all encodable chunks then Done () else Raised UnicodeEncodeError,
          fs(output_path \<mapsto> Text (concat written))))"

text \<open>
  \<open>create_test_suite_for_solutions\<close>: the directory is made first; then the loop over
  the solution files builds one test file each and returns the test paths.  An error of
  \<open>build_pytest_file\<close> ends the loop.
\<close>

fun test_suite_loop ::
    "test_case list \<Rightarrow> ustring list \<Rightarrow> ustring \<Rightarrow> ustring \<Rightarrow> filesys
     \<Rightarrow> ustring list outcome \<times> filesys" where
  "test_suite_loop test_cases [] output_dir func_name fs = (Done [], fs)"
| "test_suite_loop test_cases (sol_path # rest) output_dir func_name fs =
     (let sol_name = path_stem sol_path;
          test_filename = ustr ''test_'' @ sol_name @ ustr ''.py'';
          test_path = path_join output_dir test_filename
      in case build_pytest_file test_cases sol_name test_path func_name fs of
           (Raised e, fs1) \<Rightarrow> (Raised e, fs1)
         | (Done u, fs1) \<Rightarrow>
             (case test_suite_loop test_cases rest output_dir func_name fs1 of
                (Raised e, fs2) \<Rightarrow> (Raised e, fs2)
              | (Done test_paths, fs2) \<Rightarrow> (Done (test_path # test_paths), fs2)))"

definition create_test_suite_for_solutions ::
    "test_case list \<Rightarrow> ustring list \<Rightarrow> ustring \<Rightarrow> ustring \<Rightarrow> filesys
     \<Rightarrow> ustring list outcome \<times> filesys" where
  "create_test_suite_for_solutions test_cases solution_files output_dir func_name fs =
     (case mkdir_parents output_dir fs of
        Some e \<Rightarrow> (Raised e, fs)
      | None \<Rightarrow> test_suite_loop test_cases solution_files output_dir func_name fs)"

section \<open>core/utils.py: make_zipfile\<close>

text \<open>
  \<open>zf.write(filename, arcname)\<close> for each pair, in order: a missing file raises and
  leaves the archive with the entries written so far.  The arc names are stored as they
  are given (relative, without dot components, as the front-end passes them).
\<close>

fun zip_entries :: "filesys \<Rightarrow> (ustring \<times> ustring) list \<Rightarrow> (ustring \<times> content) list \<times> exn option" where
  "zip_entries files [] = ([], None)"
| "zip_entries files ((arcname, filename) # rest) =
     (case files filename of
        None \<Rightarrow> ([], Some FileNotFoundError)
      | Some f \<Rightarrow> (let (es, err) = zip_entries files rest in ((arcname, f) # es, err)))"

definition make_zipfile ::
    "(ustring \<times> ustring) list \<Rightarrow> ustring \<Rightarrow> filesys \<Rightarrow> unit outcome \<times> filesys" where
  "make_zipfile zfiles output_path files =
     (let (es, err) = zip_entries (files(output_path \<mapsto> Zip [])) zfiles
      in (case err of None \<Rightarrow> Done () | Some e \<Rightarrow> Raised e, files(output_path \<mapsto> Zip es)))"

section \<open>core/utils.py: write_json and read_json\<close>

text \<open>
  \<open>write_json\<close>: a document with a code point that UTF-8 does not encode makes the
  write raise and leaves the file incomplete.
\<close>

definition write_json :: "pyval \<Rightarrow> ustring \<Rightarrow> filesys \<Rightarrow> unit outcome \<times> filesys" where
  "write_json data path fs =
     (let doc = json_dumps False data in
      if encodable doc then (Done (), fs(path \<mapsto> Text doc))
      else (Raised UnicodeEncodeError, fs(path \<mapsto> Incomplete)))"

text \<open>
  What \<open>read_json\<close> gives when it gives no value of the model: the file is missing; the
  file holds no UTF-8 text written by this model (bytes and archives are not decoded
  here; an incomplete document never parses); or the scanner's verdict, where
  \<open>FloatValue\<close> is no error of Python but a value outside the model.
\<close>

datatype read_error = NoSuchFile | NotText | Scan scan_error

definition read_json :: "ustring \<Rightarrow> filesys \<Rightarrow> read_error + pyval" where
  "read_json path fs =
     (case fs path of
        None \<Rightarrow> Inl NoSuchFile
      | Some (Text doc) \<Rightarrow> (case json_loads doc of Inl e \<Rightarrow> Inl (Scan e) | Inr v \<Rightarrow> Inr v)
      | Some other \<Rightarrow> Inl NotText)"

text \<open>
  The values JSON has of its own: no tuple, every key a string, no key twice in a
  dictionary, every string made of code points that UTF-8 encodes.
\<close>

fun json_native :: "pyval \<Rightarrow> bool"
  and json_native_list :: "pyval list \<Rightarrow> bool"
  and json_native_dict :: "(pykey \<times> pyval) list \<Rightarrow> bool"
where
  "json_native PNone = True"
| "json_native (PBool b) = True"
| "json_native (PInt i) = True"
| "json_native (PStr s) = list_all scalar_value s"
| "json_native (PList xs) = json_native_list xs"
| "json_native (PTuple xs) = False"
| "json_native (PDict kvs) = (json_native_dict kvs \<and> distinct (map fst kvs))"
| "json_native_list [] = True"
| "json_native_list (x # xs) = (json_native x \<and> json_native_list xs)"
| "json_native_dict [] = True"
| "json_native_dict ((k, v) # kvs) =
     ((case k of KStr s \<Rightarrow> list_all scalar_value s | _ \<Rightarrow> False)
      \<and> json_native v \<and> json_native_dict kvs)"

text \<open>
  What follows a value in a document written with an indentation: nothing, a comma, or a
  line break.
\<close>

definition follows_value :: "ustring \<Rightarrow> bool" where
  "follows_value r \<longleftrightarrow> r = [] \<or> hd r = 44 \<or> hd r = 10"

text \<open>The code points a value can start with: none of them is white space or closes a bracket.\<close>

definition value_start :: "nat \<Rightarrow> bool" where
  "value_start c \<longleftrightarrow>
     c = 34 \<or> c = 45 \<or> ascii_digit c \<or> c = 91 \<or> c = 123 \<or> c = 110 \<or> c = 116 \<or> c = 102"

section \<open>app.py: the run behind the Generate button\<close>

text \<open>
  What the run shows and what it calls, in order: the Streamlit elements with their
  text, and one entry for each call of \<open>validate_solutions\<close>.
\<close>

datatype event =
    StError ustring
  | StSubheader ustring
  | StMarkdown ustring
  | StCode ustring
  | StJson test_case
  | StWarning ustring
  | StWrite ustring
  | StExpander ustring "ustring list"
  | StDownload ustring content
  | CallValidate "ustring list" "test_case list"

record world =
  files :: filesys
  shown :: "event list"

definition emit :: "event list \<Rightarrow> world \<Rightarrow> world" where
  "emit es w = w\<lparr>shown := shown w @ es\<rparr>"

text \<open>
  Modelled from the spec: the result of \<open>validate_solutions\<close> (core/validator.py is not
  among the sources): for each solution key the counts \<open>passes\<close> and \<open>fails\<close> and the
  list of details, and the optional list \<open>differential\<close>.
\<close>

record validation_result =
  passes :: int
  fails :: int
  details :: "ustring list"

type_synonym validation = "(ustring \<times> validation_result) list \<times> ustring list option"

text \<open>
  What the run takes from outside the sources: the Unicode tables, the temporary
  directory, the text PyMuPDF reads from the bytes of a PDF, the UTF-8 decoder, and the
  three functions of core/generator.py and core/validator.py, each of which returns or
  raises.  The client is the pair of the key and the mock flag.
\<close>

record externals =
  ext_ucd :: ucd
  ext_tmpdir :: ustring
  ext_pdf_text :: "nat list \<Rightarrow> exn + ustring"
  ext_decode_utf8 :: "nat list \<Rightarrow> exn + ustring"
  ext_generate_solutions ::
    "(section_key \<times> ustring) list \<Rightarrow> ustring \<Rightarrow> int \<Rightarrow> ustring \<times> bool \<Rightarrow> exn + ustring list"
  ext_generate_test_cases ::
    "(section_key \<times> ustring) list \<Rightarrow> ustring \<Rightarrow> int \<Rightarrow> ustring \<times> bool \<Rightarrow> exn + test_case list"
  ext_validate_solutions :: "ustring list \<Rightarrow> test_case list \<Rightarrow> exn + validation"

text \<open>The widgets when the button is pressed.\<close>

record request =
  pdf_file :: "(ustring \<times> nat list) option"
  template_file :: "nat list option"
  num_solutions :: int
  max_tests :: int
  api_key :: ustring

subsection \<open>Rendering\<close>

fun section_title :: "section_key \<Rightarrow> ustring" where
  "section_title Statement = ustr ''Statement''"
| "section_title Input = ustr ''Input''"
| "section_title Output = ustr ''Output''"
| "section_title Constraints = ustr ''Constraints''"
| "section_title Examples = ustr ''Examples''"

definition show_statement :: "(section_key \<times> ustring) list \<Rightarrow> event list" where
  "show_statement problem_data =
     StSubheader (ustr ''Extracted Statement'')
     # map (\<lambda>(k, v). StMarkdown (ustr ''**'' @ section_title k @ ustr ''**:'' @ [10] @ v))
         (filter (\<lambda>(k, v). v \<noteq> []) problem_data)"

fun show_solutions :: "nat \<Rightarrow> ustring list \<Rightarrow> event list" where
  "show_solutions idx [] = []"
| "show_solutions idx (sol # sols) =
     StMarkdown (ustr ''### Solution '' @ str_nat (idx + 1)) # StCode sol
     # show_solutions (idx + 1) sols"

definition show_test_cases :: "test_case list \<Rightarrow> event list" where
  "show_test_cases test_cases =
     StSubheader (ustr ''Proposed Test Cases'')
     # (if test_cases \<noteq> [] then map StJson test_cases
        else [StWarning (ustr ''Could not generate test cases automatically.'')])"

definition show_validation :: "validation \<Rightarrow> event list" where
  "show_validation results =
     StSubheader (ustr ''Validation Results'')
     # concat (map (\<lambda>(sol_key, res).
           [StMarkdown (ustr ''#### '' @ sol_key),
            StWrite (ustr ''Passed: '' @ str_int (passes res) @ ustr '' | Failed: ''
                     @ str_int (fails res)),
            StExpander (ustr ''Details'') (details res)]) (fst results))
     @ (case snd results of
          None \<Rightarrow> []
        | Some diffs \<Rightarrow>
            StSubheader (ustr ''Consistency Between Solutions'') # map StWrite diffs)"

subsection \<open>Validation and packaging, both behind \<open>if test_cases\<close>\<close>

definition validate_stage ::
    "externals \<Rightarrow> ustring list \<Rightarrow> test_case list \<Rightarrow> world \<Rightarrow> unit outcome \<times> world" where
  "validate_stage ext solutions test_cases w =
     (if test_cases \<noteq> [] then
        (let w1 = emit [CallValidate solutions test_cases] w in
         case ext_validate_solutions ext solutions test_cases of
           Inl e \<Rightarrow> (Raised e, w1)
         | Inr results \<Rightarrow> (Done (), emit (show_validation results) w1))
      else (Done (), w))"

definition solution_file_name :: "nat \<Rightarrow> ustring" where
  "solution_file_name idx = ustr ''solution_'' @ str_nat (idx + 1) @ ustr ''.py''"

text \<open>
  The loop that writes the solutions: each file is opened for writing as UTF-8 and
  takes its solution in one write; a solution that cannot be encoded raises and leaves
  its file empty.
\<close>

fun write_solutions ::
    "ustring \<Rightarrow> nat \<Rightarrow> ustring list \<Rightarrow> filesys \<Rightarrow> ustring list outcome \<times> filesys" where
  "write_solutions work_dir idx [] fs = (Done [], fs)"
| "write_solutions work_dir idx (sol # sols) fs =
     (let sol_path = path_join work_dir (solution_file_name idx)
      in if encodable sol then
           (case write_solutions work_dir (idx + 1) sols (fs(sol_path \<mapsto> Text sol)) of
              (Raised e, fs1) \<Rightarrow> (Raised e, fs1)
            | (Done solution_paths, fs1) \<Rightarrow> (Done (sol_path # solution_paths), fs1))
         else (Raised UnicodeEncodeError, fs(sol_path \<mapsto> Text [])))"

definition files_to_zip :: "ustring list \<Rightarrow> ustring list \<Rightarrow> (ustring \<times> ustring) list" where
  "files_to_zip solution_paths test_files =
     map (\<lambda>sol_path. (path_name sol_path, sol_path)) solution_paths
     @ map (\<lambda>test_path. (ustr ''tests/'' @ path_name test_path, test_path)) test_files"

definition zip_file_name :: "externals \<Rightarrow> ustring \<Rightarrow> ustring" where
  "zip_file_name ext pdf_name = slugify (ext_ucd ext) pdf_name False @ ustr ''_suite.zip''"

definition package_stage ::
    "externals \<Rightarrow> ustring \<Rightarrow> ustring list \<Rightarrow> test_case list \<Rightarrow> world \<Rightarrow> unit outcome \<times> world" where
  "package_stage ext pdf_name solutions test_cases w =
     (if test_cases \<noteq> [] then
        (let work_dir = ext_tmpdir ext in
         case write_solutions work_dir 0 solutions (files w) of
           (Raised e, fs1) \<Rightarrow> (Raised e, w\<lparr>files := fs1\<rparr>)
         | (Done solution_paths, fs1) \<Rightarrow>
            (let tests_dir = path_join work_dir (ustr ''tests'') in
             case create_test_suite_for_solutions test_cases solution_paths tests_dir
                    (ustr ''solve'') fs1 of
               (Raised e, fs2) \<Rightarrow> (Raised e, w\<lparr>files := fs2\<rparr>)
             | (Done test_files, fs2) \<Rightarrow>
                (let zip_name = zip_file_name ext pdf_name;
                     zip_path = path_join work_dir zip_name;
                     (made, fs3) = make_zipfile (files_to_zip solution_paths test_files) zip_path fs2;
                     w1 = w\<lparr>files := fs3\<rparr>
                 in case made of
                      Raised e \<Rightarrow> (Raised e, w1)
                    | Done u \<Rightarrow>
                        (let w2 = emit [StSubheader (ustr ''Download Test Suite'')] w1 in
                         case fs3 zip_path of
                           None \<Rightarrow> (Raised FileNotFoundError, w2)
                         | Some data \<Rightarrow> (Done (), emit [StDownload zip_name data] w2)))))
      else (Done (), w))"

subsection \<open>The whole run\<close>

definition after_test_cases ::
    "externals \<Rightarrow> ustring \<Rightarrow> ustring list \<Rightarrow> test_case list \<Rightarrow> world \<Rightarrow> unit outcome \<times> world" where
  "after_test_cases ext pdf_name solutions test_cases w =
     (case validate_stage ext solutions test_cases (emit (show_test_cases test_cases) w) of
        (Raised e, w1) \<Rightarrow> (Raised e, w1)
      | (Done u, w1) \<Rightarrow> package_stage ext pdf_name solutions test_cases w1)"

definition run_generate :: "externals \<Rightarrow> request \<Rightarrow> world \<Rightarrow> unit outcome \<times> world" where
  "run_generate ext req w =
     (case (pdf_file req, template_file req) of
        (Some (pdf_name, pdf_bytes), Some template_bytes) \<Rightarrow>
          (let pdf_path = path_join (ext_tmpdir ext) pdf_name;
               w1 = w\<lparr>files := (files w)(pdf_path \<mapsto> Bytes pdf_bytes)\<rparr>
           in case ext_pdf_text ext pdf_bytes of
                Inl e \<Rightarrow> (Raised e, w1)
              | Inr src \<Rightarrow>
                 (let problem_data = parse_problem_text (ext_ucd ext) src;
                      w2 = emit (show_statement problem_data) w1
                  in case ext_decode_utf8 ext template_bytes of
                       Inl e \<Rightarrow> (Raised e, w2)
                     | Inr template_code \<Rightarrow>
                        (let w3 = emit [StSubheader (ustr ''Code Template''), StCode template_code] w2;
                             client = (api_key req, api_key req = [])
                         in case ext_generate_solutions ext problem_data template_code
                                   (num_solutions req) client of
                              Inl e \<Rightarrow> (Raised e, w3)
                            | Inr solutions \<Rightarrow>
                               (let w4 = emit (StSubheader (ustr ''Generated Solutions'')
                                               # show_solutions 0 solutions) w3
                                in case solutions of
                                     [] \<Rightarrow> (Raised IndexError, w4)
                                   | first # others \<Rightarrow>
                                      (case ext_generate_test_cases ext problem_data first
                                              (max_tests req) client of
                                         Inl e \<Rightarrow> (Raised e, w4)
                                       | Inr test_cases \<Rightarrow>
                                           after_test_cases ext pdf_name solutions test_cases w4)))))
      | _ \<Rightarrow>
          (Done (), emit [StError (ustr ''You must select a PDF and a code template before continuing.'')] w))"

subsection \<open>The archive layout of the specification\<close>



subsection \<open>A run to evaluate\<close>

text \<open>
  An environment in the manner of the demonstration mode: the PDF reads as one line,
  every solution is the same function, one test case comes back, and validation passes
  nothing on.  \<open>no_solutions\<close> and \<open>no_test_cases\<close> are the same environment with a
  generator that degrades to the empty list.
\<close>

definition demo_case :: test_case where
  "demo_case = [(KStr (ustr ''input''), PList [PInt 2, PInt 3]), (KStr (ustr ''expected''), PInt 5)]"

definition demo_externals :: externals where
  "demo_externals =
     \<lparr> ext_ucd = ascii_ucd,
       ext_tmpdir = ustr ''/tmp'',
       ext_pdf_text = (\<lambda>b. Inr (ustr ''Add two numbers.'')),
       ext_decode_utf8 = (\<lambda>b. Inr b),
       ext_generate_solutions = (\<lambda>p t n c. Inr (replicate (nat n) (ustr ''def solve(a, b): return a + b''))),
       ext_generate_test_cases = (\<lambda>p s n c. Inr [demo_case]),
       ext_validate_solutions = (\<lambda>s t. Inr ([], None)) \<rparr>"

definition no_solutions :: externals where
  "no_solutions = demo_externals\<lparr>ext_generate_solutions := (\<lambda>p t n c. Inr [])\<rparr>"

definition no_test_cases :: externals where
  "no_test_cases = demo_externals\<lparr>ext_generate_test_cases := (\<lambda>p s n c. Inr [])\<rparr>"

definition demo_request :: request where
  "demo_request =
     \<lparr> pdf_file = Some (ustr ''sum.pdf'', [37, 80, 68, 70]),
       template_file = Some (ustr ''def solve(a, b): pass''),
       num_solutions = 2, max_tests = 10, api_key = [] \<rparr>"

definition empty_world :: world where
  "empty_world = \<lparr>files = Map.empty, shown = []\<rparr>"

text \<open>The events a claim speaks of.\<close>

fun is_validation :: "event \<Rightarrow> bool" where
  "is_validation (CallValidate s t) = True"
| "is_validation e = False"

fun is_download :: "event \<Rightarrow> bool" where
  "is_download (StDownload n d) = True"
| "is_download e = False"

fun is_notice :: "event \<Rightarrow> bool" where
  "is_notice (StWarning m) = True"
| "is_notice (StError m) = True"
| "is_notice e = False"

section \<open>Properties of slugify\<close>

subsection \<open>Runs, stripping and lower-casing\<close>

lemma set_sub_runs: "set (sub_runs P s) \<subseteq> insert 95 (set s)"
proof (induction P s rule: sub_runs.induct)
  case (1 P) show ?case by simp
next
  case (2 P c cs)
  have "set (dropWhile P cs) \<subseteq> set cs" by (simp add: set_dropWhileD subsetI)
  with 2 show ?case by auto
qed

lemma sub_runs_free: "c \<in> set (sub_runs P s) \<Longrightarrow> \<not> P 95 \<Longrightarrow> \<not> P c"
proof (induction P s rule: sub_runs.induct)
  case (1 P) then show ?case by simp
next
  case (2 P c' cs) then show ?case by (auto split: if_splits)
qed

lemma sub_runs_id: "\<forall>c \<in> set s. \<not> P c \<Longrightarrow> sub_runs P s = s"
  by (induction s) auto

lemma lower_from_ascii:
  "\<forall>c \<in> set s. c < 128 \<Longrightarrow>
   lower_from db b s = map (\<lambda>c. if ascii_upper c then c + 32 else c) s"
  by (induction s arbitrary: b) (auto simp: to_lower_full_def)

lemma strip_with_subset: "set (strip_with P s) \<subseteq> set s"
  unfolding strip_with_def
  by (metis set_dropWhileD set_rev subsetI)

lemma dropWhile_rev_keeps_head:
  "\<not> P x \<Longrightarrow> \<exists>zs. dropWhile P (rev (x # d)) = zs @ [x]"
  by (simp add: dropWhile_append3)

lemma strip_with_start: "strip_with P s = c # t \<Longrightarrow> \<not> P c"
proof -
  assume a: "strip_with P s = c # t"
  show ?thesis
  proof (cases "dropWhile P s")
    case Nil with a show ?thesis by (simp add: strip_with_def)
  next
    case (Cons x d)
    then have nx: "\<not> P x" by (metis hd_dropWhile list.sel(1) list.distinct(1))
    from dropWhile_rev_keeps_head[of P x d] nx obtain zs
      where "dropWhile P (rev (x # d)) = zs @ [x]" by blast
    with a Cons have "c = x" by (simp add: strip_with_def)
    with nx show ?thesis by simp
  qed
qed

lemma strip_with_end: "strip_with P s \<noteq> [] \<Longrightarrow> \<not> P (last (strip_with P s))"
  unfolding strip_with_def
  by (simp add: last_rev hd_dropWhile)

lemma strip_with_id: "s = [] \<or> (\<not> P (hd s) \<and> \<not> P (last s)) \<Longrightarrow> strip_with P s = s"
proof (cases s)
  case Nil then show ?thesis by (simp add: strip_with_def)
next
  case (Cons x xs)
  assume "s = [] \<or> (\<not> P (hd s) \<and> \<not> P (last s))"
  with Cons have h: "\<not> P x" and l: "\<not> P (last s)" by auto
  from h Cons have d: "dropWhile P s = s" by simp
  from Cons have "rev s \<noteq> []" by simp
  then obtain y ys where r: "rev s = y # ys" by (cases "rev s") auto
  then have "last s = y" by (metis list.sel(1) hd_rev)
  with l r have "dropWhile P (rev s) = rev s" by simp
  with d show ?thesis by (simp add: strip_with_def)
qed

subsection \<open>The ASCII slug\<close>

lemma slug_char_simps:
  "slug_char c \<Longrightarrow> c < 128 \<and> \<not> space_or_hyphen c \<and> re_word db c \<and> \<not> ascii_upper c"
  by (auto simp: slug_char_def space_or_hyphen_def py_isspace_def re_word_def py_isalnum_def
      ascii_lower_def ascii_digit_def ascii_upper_def)

lemma ascii_word_chars:
  "set (filter (re_word db) (sub_runs space_or_hyphen (ascii_ignore s))) \<subseteq> {c. c < 128 \<and> re_word db c}"
  using set_sub_runs[of space_or_hyphen "ascii_ignore s"]
  by (auto simp: ascii_ignore_def)

lemma lower_ascii_word:
  "c < 128 \<Longrightarrow> re_word db c \<Longrightarrow> slug_char (if ascii_upper c then c + 32 else c)"
  by (auto simp: slug_char_def re_word_def py_isalnum_def ascii_lower_def ascii_digit_def
      ascii_upper_def)

lemma slugify_ascii_chars: "c \<in> set (slugify db s False) \<Longrightarrow> slug_char c"
proof -
  let ?v = "filter (re_word db) (sub_runs space_or_hyphen (ascii_ignore s))"
  assume "c \<in> set (slugify db s False)"
  then have "c \<in> set (str_lower db ?v)"
    using strip_with_subset by (auto simp: slugify_def strip_chars_def)
  moreover have a: "\<forall>c \<in> set ?v. c < 128" using ascii_word_chars[of db s] by auto
  ultimately obtain c' where "c' \<in> set ?v" "c = (if ascii_upper c' then c' + 32 else c')"
    by (auto simp: str_lower_def lower_from_ascii[OF a])
  with ascii_word_chars[of db s] show ?thesis using lower_ascii_word[of c' db] by auto
qed

lemma slugify_ascii_indep: "slugify db s False = slugify db' s False"
proof -
  let ?u = "sub_runs space_or_hyphen (ascii_ignore s)"
  have u: "\<forall>c \<in> set ?u. c < 128"
    using set_sub_runs[of space_or_hyphen "ascii_ignore s"] by (auto simp: ascii_ignore_def)
  then have f: "filter (re_word db) ?u = filter (re_word db') ?u"
    by (intro filter_cong) (auto simp: re_word_def py_isalnum_def)
  have "\<forall>c \<in> set (filter (re_word db') ?u). c < 128" using u by auto
  then have "str_lower db (filter (re_word db') ?u) = str_lower db' (filter (re_word db') ?u)"
    by (simp add: str_lower_def lower_from_ascii)
  with f show ?thesis by (simp add: slugify_def)
qed

lemma slugify_no_lead: "\<not> starts_with 95 (slugify db s a)"
proof (cases "slugify db s a")
  case Nil then show ?thesis by simp
next
  case (Cons c t)
  then have "\<not> (c \<in> set [95])"
    using strip_with_start[of "\<lambda>c. c \<in> set [95]" _ c t] by (simp add: slugify_def strip_chars_def Let_def)
  with Cons show ?thesis by simp
qed

lemma slugify_no_trail: "\<not> ends_with 95 (slugify db s a)"
proof (cases "slugify db s a = []")
  case True then show ?thesis by (simp add: ends_with_def)
next
  case False
  then have "\<not> (last (slugify db s a) \<in> set [95])"
    using strip_with_end[of "\<lambda>c. c \<in> set [95]"] by (simp add: slugify_def strip_chars_def Let_def)
  moreover from False obtain y ys where "rev (slugify db s a) = y # ys"
    by (cases "rev (slugify db s a)") auto
  moreover from this have "last (slugify db s a) = y" by (metis list.sel(1) hd_rev)
  ultimately show ?thesis by (simp add: ends_with_def)
qed

lemma slugify_example:
  "slugify db (ustr ''My Exercise #1!'') False = ustr ''my_exercise_1''"
  by (simp add: slugify_def ustr_def ascii_ignore_def space_or_hyphen_def py_isspace_def
      re_word_def py_isalnum_def ascii_upper_def ascii_lower_def ascii_digit_def
      str_lower_def to_lower_full_def strip_chars_def strip_with_def)

text \<open>
  Claim C4.  With \<open>allow_unicode\<close> false, \<open>slugify\<close> returns, for every string, a
  string of lower-case ASCII letters, digits and underscores that neither starts nor ends
  with an underscore.  It is a function of the string alone: the character tables do not
  matter, and no step of it can raise.  The empty string gives the empty string, and
  \<open>slugify("My Exercise #1!")\<close> is \<open>"my_exercise_1"\<close>.
\<close>

theorem slugify_ascii_slug:
  "list_all slug_char (slugify db s False)
   \<and> \<not> starts_with 95 (slugify db s False)
   \<and> \<not> ends_with 95 (slugify db s False)
   \<and> slugify db s False = slugify db' s False
   \<and> slugify db [] False = []
   \<and> slugify db (ustr ''My Exercise #1!'') False = ustr ''my_exercise_1''"
proof -
  have "slugify db [] False = []"
    by (simp add: slugify_def ascii_ignore_def str_lower_def strip_chars_def strip_with_def)
  then show ?thesis
    using slugify_ascii_chars[of _ db s] slugify_no_lead slugify_no_trail
      slugify_ascii_indep[of db s db'] slugify_example
    by (simp add: list_all_iff)
qed

lemma fixed_of_slug:
  assumes c: "\<forall>c \<in> set r. slug_char c" and l: "\<not> starts_with 95 r" and t: "\<not> ends_with 95 r"
  shows "slugify db r False = r"
proof -
  have 1: "ascii_ignore r = r" using c slug_char_simps by (auto simp: ascii_ignore_def)
  have 2: "sub_runs space_or_hyphen r = r" using c slug_char_simps by (intro sub_runs_id) auto
  have 3: "filter (re_word db) r = r" using c slug_char_simps by (auto simp: filter_id_conv)
  have "\<forall>c \<in> set r. c < 128" using c slug_char_simps by auto
  then have "str_lower db r = map (\<lambda>c. if ascii_upper c then c + 32 else c) r"
    by (simp add: str_lower_def lower_from_ascii)
  also have "\<dots> = r" using c slug_char_simps by (intro map_idI) auto
  finally have 4: "str_lower db r = r" .
  have "r = [] \<or> (\<not> (hd r \<in> set [95]) \<and> \<not> (last r \<in> set [95]))"
  proof (cases r)
    case Nil then show ?thesis by simp
  next
    case (Cons x xs)
    then obtain y ys where "rev r = y # ys" by (cases "rev r") auto
    moreover from this have "last r = y" by (metis list.sel(1) hd_rev)
    ultimately show ?thesis using l t Cons by (auto simp: ends_with_def)
  qed
  then have 5: "strip_chars [95] r = r"
    unfolding strip_chars_def by (rule strip_with_id)
  show ?thesis by (simp add: slugify_def 1 2 3 4 5)
qed

text \<open>
  Claim C8.  With \<open>allow_unicode\<close> false, \<open>slugify\<close> is idempotent: applied to its own
  result it returns that result.
\<close>

theorem slugify_idempotent:
  "slugify db (slugify db s False) False = slugify db s False"
  using slugify_ascii_chars slugify_no_lead slugify_no_trail
  by (intro fixed_of_slug) auto

subsection \<open>The Unicode mode\<close>

lemma latin_greek_ok: "ucd_lower_ok latin_greek_ucd"
  by (auto simp: ucd_lower_ok_def latin_greek_ucd_def lower_stable_def to_lower_full_def
      space_or_hyphen_def py_isspace_def ascii_upper_def split: if_splits)

lemma not_soh_us: "\<not> space_or_hyphen 95"
  by (simp add: space_or_hyphen_def py_isspace_def)

lemma to_lower_full_ok:
  assumes "ucd_lower_ok db" "c \<noteq> 931" "d \<in> set (to_lower_full db c)"
  shows "lower_stable db d \<and> (\<not> space_or_hyphen c \<longrightarrow> \<not> space_or_hyphen d)"
proof (cases "c < 128")
  case True
  with assms(3) have d: "d = (if ascii_upper c then c + 32 else c)"
    by (simp add: to_lower_full_def)
  with True show ?thesis
    by (auto simp: lower_stable_def to_lower_full_def ascii_upper_def space_or_hyphen_def
        py_isspace_def)
next
  case False
  with assms(3) have "d \<in> set (uc_lower db c)" by (simp add: to_lower_full_def)
  with False assms(1) show ?thesis unfolding ucd_lower_ok_def by (meson not_le)
qed

lemma sigma_ok:
  assumes "ucd_lower_ok db"
  shows "lower_stable db (handle_capital_sigma db b a) \<and>
         \<not> space_or_hyphen (handle_capital_sigma db b a)"
proof -
  have "handle_capital_sigma db b a = 962 \<or> handle_capital_sigma db b a = 963"
    by (simp add: handle_capital_sigma_def split: list.splits)
  with assms show ?thesis
    by (auto simp: ucd_lower_ok_def space_or_hyphen_def py_isspace_def)
qed

lemma lower_from_ok:
  assumes "ucd_lower_ok db"
  shows "d \<in> set (lower_from db b s) \<Longrightarrow>
         lower_stable db d \<and> ((\<forall>c \<in> set s. \<not> space_or_hyphen c) \<longrightarrow> \<not> space_or_hyphen d)"
proof (induction s arbitrary: b)
  case Nil then show ?case by simp
next
  case (Cons c cs)
  show ?case
  proof (cases "d \<in> set (lower_from db (c # b) cs)")
    case True
    with Cons.IH[of "c # b"] show ?thesis by simp
  next
    case False
    with Cons.prems
    have h: "d \<in> set (if c = 931 then [handle_capital_sigma db b cs] else to_lower_full db c)"
      by simp
    show ?thesis
    proof (cases "c = 931")
      case True
      with h sigma_ok[OF assms, of b cs] show ?thesis by simp
    next
      case False
      with h to_lower_full_ok[OF assms False, of d] show ?thesis by simp
    qed
  qed
qed

lemma lower_from_stable:
  "\<forall>c \<in> set r. lower_stable db c \<Longrightarrow> lower_from db b r = r"
  by (induction r arbitrary: b) (auto simp: lower_stable_def)

lemma stable_not_upper: "lower_stable db c \<Longrightarrow> \<not> ascii_upper c"
  by (auto simp: lower_stable_def to_lower_full_def ascii_upper_def split: if_splits)

lemma slugify_unicode_chars:
  assumes "ucd_lower_ok db" and "d \<in> set (slugify db s True)"
  shows "lower_stable db d \<and> \<not> space_or_hyphen d"
proof -
  let ?v = "filter (re_word db) (sub_runs space_or_hyphen s)"
  have "\<forall>c \<in> set ?v. \<not> space_or_hyphen c"
    using sub_runs_free[of _ space_or_hyphen s] not_soh_us by auto
  moreover from assms(2) have "d \<in> set (lower_from db [] ?v)"
    using strip_with_subset by (auto simp: slugify_def strip_chars_def str_lower_def)
  ultimately show ?thesis using lower_from_ok[OF assms(1), of d "[]" ?v] by blast
qed

text \<open>
  Claim C10.  With \<open>allow_unicode\<close> true, \<open>slugify\<close> is still a total function, and
  for tables with the two facts above its result holds no white space and no hyphen, is
  lower-cased (no ASCII capital, and \<open>str.lower\<close> leaves it as it is), and neither
  starts nor ends with an underscore.
\<close>

theorem slugify_unicode_slug:
  assumes "ucd_lower_ok db"
  shows "list_all (\<lambda>c. \<not> py_isspace c \<and> c \<noteq> 45 \<and> \<not> ascii_upper c) (slugify db s True)
         \<and> str_lower db (slugify db s True) = slugify db s True
         \<and> \<not> starts_with 95 (slugify db s True)
         \<and> \<not> ends_with 95 (slugify db s True)"
proof -
  have c: "\<forall>d \<in> set (slugify db s True). lower_stable db d \<and> \<not> space_or_hyphen d"
    using slugify_unicode_chars[OF assms] by blast
  then have "list_all (\<lambda>c. \<not> py_isspace c \<and> c \<noteq> 45 \<and> \<not> ascii_upper c) (slugify db s True)"
    using stable_not_upper by (auto simp: list_all_iff space_or_hyphen_def)
  moreover from c have "str_lower db (slugify db s True) = slugify db s True"
    unfolding str_lower_def by (intro lower_from_stable) blast
  ultimately show ?thesis using slugify_no_lead slugify_no_trail by blast
qed

lemma slugify_greek_example:
  "slugify latin_greek_ucd [927, 916, 927, 931, 32, 45, 32, 220, 66, 95] True =
     [959, 948, 959, 962, 95, 252, 98]"
  by (simp add: slugify_def space_or_hyphen_def py_isspace_def re_word_def py_isalnum_def
      ascii_upper_def ascii_lower_def ascii_digit_def latin_greek_ucd_def latin_greek_letter_def
      str_lower_def to_lower_full_def handle_capital_sigma_def strip_chars_def strip_with_def)

theorem slugify_unicode_slug_witness:
  "ucd_lower_ok latin_greek_ucd
   \<and> slugify latin_greek_ucd [927, 916, 927, 931, 32, 45, 32, 220, 66, 95] True =
       [959, 948, 959, 962, 95, 252, 98]
   \<and> list_all (\<lambda>c. \<not> py_isspace c \<and> c \<noteq> 45 \<and> \<not> ascii_upper c) [959, 948, 959, 962, 95, 252, 98]
   \<and> str_lower latin_greek_ucd [959, 948, 959, 962, 95, 252, 98] = [959, 948, 959, 962, 95, 252, 98]
   \<and> \<not> starts_with 95 [959, 948, 959, 962, 95, 252, 98]
   \<and> \<not> ends_with 95 [959, 948, 959, 962, 95, 252, 98]"
  using slugify_unicode_slug[OF latin_greek_ok, of "[927, 916, 927, 931, 32, 45, 32, 220, 66, 95]"]
    latin_greek_ok
  by (simp only: slugify_greek_example simp_thms)

section \<open>Properties of parse_problem_text\<close>















lemma strip_Nil: "strip [] = []"
  by (simp add: strip_def strip_with_def)










section \<open>Decimal numbers and paths\<close>


lemma str_nat_nonempty: "str_nat n \<noteq> []"
  by (subst str_nat.simps) simp






section \<open>Properties of the archive\<close>

subsection \<open>What the test files are made of\<close>


















subsection \<open>The names in the archive\<close>














section \<open>Properties of the run\<close>

lemma show_statement_plain:
  "list_all (\<lambda>e. \<not> is_validation e \<and> \<not> is_download e \<and> \<not> is_notice e) (show_statement pd)"
  by (auto simp: show_statement_def list_all_iff)

lemma show_solutions_plain:
  "list_all (\<lambda>e. \<not> is_validation e \<and> \<not> is_download e \<and> \<not> is_notice e) (show_solutions i sols)"
  by (induction sols arbitrary: i) auto

lemma after_no_test_cases:
  "after_test_cases ext pdf_name solutions [] w =
     (Done (), emit [StSubheader (ustr ''Proposed Test Cases''),
                     StWarning (ustr ''Could not generate test cases automatically.'')] w)"
  by (simp add: after_test_cases_def validate_stage_def package_stage_def show_test_cases_def)

text \<open>
  Claim C6.  When the run reaches test-case generation and it returns the empty list,
  the run ends normally: after what was shown before, it shows the heading and the
  warning and nothing else; \<open>validate_solutions\<close> is not called, no download is
  offered, and the only file written is the uploaded PDF (no solution, no test file, no
  archive).
\<close>

theorem empty_test_cases_skip:
  assumes "pdf_file req = Some (pdf_name, pdf_bytes)"
    and "template_file req = Some template_bytes"
    and "ext_pdf_text ext pdf_bytes = Inr src"
    and "ext_decode_utf8 ext template_bytes = Inr template_code"
    and "ext_generate_solutions ext (parse_problem_text (ext_ucd ext) src) template_code
           (num_solutions req) (api_key req, api_key req = []) = Inr (first # others)"
    and "ext_generate_test_cases ext (parse_problem_text (ext_ucd ext) src) first
           (max_tests req) (api_key req, api_key req = []) = Inr []"
  shows "\<exists>evs. run_generate ext req w =
           (Done (),
            w\<lparr>files := (files w)(path_join (ext_tmpdir ext) pdf_name \<mapsto> Bytes pdf_bytes),
              shown := shown w @ evs
                @ [StSubheader (ustr ''Proposed Test Cases''),
                   StWarning (ustr ''Could not generate test cases automatically.'')]\<rparr>)
         \<and> list_all (\<lambda>e. \<not> is_validation e \<and> \<not> is_download e) evs"
proof -
  let ?pd = "parse_problem_text (ext_ucd ext) src"
  let ?evs = "show_statement ?pd @ [StSubheader (ustr ''Code Template''), StCode template_code]
      @ StSubheader (ustr ''Generated Solutions'') # show_solutions 0 (first # others)"
  have "run_generate ext req w =
           (Done (),
            w\<lparr>files := (files w)(path_join (ext_tmpdir ext) pdf_name \<mapsto> Bytes pdf_bytes),
              shown := shown w @ ?evs
                @ [StSubheader (ustr ''Proposed Test Cases''),
                   StWarning (ustr ''Could not generate test cases automatically.'')]\<rparr>)"
    using assms by (simp add: run_generate_def Let_def after_no_test_cases emit_def)
  moreover have "list_all (\<lambda>e. \<not> is_validation e \<and> \<not> is_download e) ?evs"
    using show_statement_plain[of ?pd] show_solutions_plain[of 1 others]
    by (auto simp: list_all_iff)
  ultimately show ?thesis by blast
qed

lemma demo_two_solutions:
  "replicate 2 s = [s, s]"
  by (simp add: numeral_2_eq_2)

theorem empty_test_cases_skip_witness:
  "pdf_file demo_request = Some (ustr ''sum.pdf'', [37, 80, 68, 70])
   \<and> template_file demo_request = Some (ustr ''def solve(a, b): pass'')
   \<and> ext_pdf_text no_test_cases [37, 80, 68, 70] = Inr (ustr ''Add two numbers.'')
   \<and> ext_generate_test_cases no_test_cases
        (parse_problem_text (ext_ucd no_test_cases) (ustr ''Add two numbers.''))
        (ustr ''def solve(a, b): return a + b'') (max_tests demo_request) ([], True) = Inr []
   \<and> (\<exists>evs. run_generate no_test_cases demo_request empty_world =
           (Done (),
            empty_world\<lparr>files := (files empty_world)(path_join (ext_tmpdir no_test_cases) (ustr ''sum.pdf'') \<mapsto> Bytes [37, 80, 68, 70]),
              shown := shown empty_world @ evs
                @ [StSubheader (ustr ''Proposed Test Cases''),
                   StWarning (ustr ''Could not generate test cases automatically.'')]\<rparr>)
         \<and> list_all (\<lambda>e. \<not> is_validation e \<and> \<not> is_download e) evs)"
proof -
  have 1: "pdf_file demo_request = Some (ustr ''sum.pdf'', [37, 80, 68, 70])"
    and 2: "template_file demo_request = Some (ustr ''def solve(a, b): pass'')"
    and k: "api_key demo_request = []" and n: "num_solutions demo_request = 2"
    by (simp_all add: demo_request_def)
  have 3: "ext_pdf_text no_test_cases [37, 80, 68, 70] = Inr (ustr ''Add two numbers.'')"
    and 4: "ext_decode_utf8 no_test_cases (ustr ''def solve(a, b): pass'') = Inr (ustr ''def solve(a, b): pass'')"
    by (simp_all add: no_test_cases_def demo_externals_def)
  have 5: "ext_generate_solutions no_test_cases
      (parse_problem_text (ext_ucd no_test_cases) (ustr ''Add two numbers.''))
      (ustr ''def solve(a, b): pass'') (num_solutions demo_request)
      (api_key demo_request, api_key demo_request = [])
      = Inr (ustr ''def solve(a, b): return a + b'' # [ustr ''def solve(a, b): return a + b''])"
    unfolding n by (simp add: no_test_cases_def demo_externals_def demo_two_solutions)
  have 6: "ext_generate_test_cases no_test_cases
      (parse_problem_text (ext_ucd no_test_cases) (ustr ''Add two numbers.''))
      (ustr ''def solve(a, b): return a + b'') (max_tests demo_request)
      (api_key demo_request, api_key demo_request = []) = Inr []"
    by (simp add: no_test_cases_def demo_externals_def)
  have 7: "ext_generate_test_cases no_test_cases
        (parse_problem_text (ext_ucd no_test_cases) (ustr ''Add two numbers.''))
        (ustr ''def solve(a, b): return a + b'') (max_tests demo_request) ([], True) = Inr []"
    by (simp add: no_test_cases_def demo_externals_def)
  from empty_test_cases_skip[OF 1 2 3 4 5 6, of empty_world] 1 2 3 7
  show ?thesis by blast
qed

lemma run_without_solutions:
  assumes "pdf_file req = Some (pdf_name, pdf_bytes)"
    and "template_file req = Some template_bytes"
    and "ext_pdf_text ext pdf_bytes = Inr src"
    and "ext_decode_utf8 ext template_bytes = Inr template_code"
    and "ext_generate_solutions ext (parse_problem_text (ext_ucd ext) src) template_code
           (num_solutions req) (api_key req, api_key req = []) = Inr []"
  shows "run_generate ext req w =
           (Raised IndexError,
            w\<lparr>files := (files w)(path_join (ext_tmpdir ext) pdf_name \<mapsto> Bytes pdf_bytes),
              shown := shown w @ show_statement (parse_problem_text (ext_ucd ext) src)
                @ [StSubheader (ustr ''Code Template''), StCode template_code,
                   StSubheader (ustr ''Generated Solutions'')]\<rparr>)"
  using assms by (simp add: run_generate_def Let_def emit_def)

text \<open>
  Claim C3 fails when solution generation degrades to the empty list: the run evaluates
  \<open>solutions[0]\<close>, the IndexError leaves the script, and up to then the run has shown
  no warning and no error of its own.
\<close>

theorem empty_solutions_abort:
  "fst (run_generate no_solutions demo_request empty_world) = Raised IndexError
   \<and> list_all (\<lambda>e. \<not> is_notice e \<and> \<not> is_download e)
        (shown (snd (run_generate no_solutions demo_request empty_world)))"
proof -
  have 1: "pdf_file demo_request = Some (ustr ''sum.pdf'', [37, 80, 68, 70])"
    and 2: "template_file demo_request = Some (ustr ''def solve(a, b): pass'')"
    by (simp_all add: demo_request_def)
  have 3: "ext_pdf_text no_solutions [37, 80, 68, 70] = Inr (ustr ''Add two numbers.'')"
    and 4: "ext_decode_utf8 no_solutions (ustr ''def solve(a, b): pass'') = Inr (ustr ''def solve(a, b): pass'')"
    by (simp_all add: no_solutions_def demo_externals_def)
  have 5: "ext_generate_solutions no_solutions
      (parse_problem_text (ext_ucd no_solutions) (ustr ''Add two numbers.''))
      (ustr ''def solve(a, b): pass'') (num_solutions demo_request)
      (api_key demo_request, api_key demo_request = []) = Inr []"
    by (simp add: no_solutions_def demo_externals_def)
  show ?thesis
    using show_statement_plain[of "parse_problem_text (ext_ucd no_solutions) (ustr ''Add two numbers.'')"]
    by (simp add: run_without_solutions[OF 1 2 3 4 5] empty_world_def list_all_iff)
qed

end
